theory Spec2Isabelle
  imports Main
begin

section \<open>JavaScript values that come out of JSON.parse\<close>

text \<open>
  The script \<^verbatim>\<open>.github/scripts/llm-failure-analysis.js\<close> works on documents it obtains
  with \<^verbatim>\<open>JSON.parse\<close>. Such a value is null, a boolean, a number, a string, an array or
  a plain object. Strings are lists of code units (\<^typ>\<open>char\<close>, so the code units 0..255).
  A number is kept as an exact decimal \<open>m * 10 ^ e\<close>, normalised so that \<open>m\<close> does not
  end in the digit 0 (and \<open>e = 0\<close> when \<open>m = 0\<close>). An object is the list of its own
  properties in enumeration order.
\<close>

datatype json =
    JNull
  | JBool bool
  | JNum int int
  | JStr string
  | JArr "json list"
  | JObj "(string \<times> json) list"

text \<open>Errors thrown by the runtime, as values.\<close>

datatype js_error = Error string | TypeError string | SystemError string

text \<open>\<^verbatim>\<open>err.message\<close>.\<close>

fun message :: "js_error \<Rightarrow> string" where
  "message (Error m) = m"
| "message (TypeError m) = m"
| "message (SystemError m) = m"

subsection \<open>Truthiness and property reads\<close>

text \<open>\<^verbatim>\<open>!!v\<close>: null, false, 0 and the empty string are falsy.\<close>

fun truthy :: "json \<Rightarrow> bool" where
  "truthy JNull = False"
| "truthy (JBool b) = b"
| "truthy (JNum m e) = (m \<noteq> 0)"
| "truthy (JStr s) = (s \<noteq> [])"
| "truthy (JArr xs) = True"
| "truthy (JObj kvs) = True"

text \<open>
  \<^verbatim>\<open>v.k\<close> for one of the property names the script reads (none of them is defined on a
  prototype): the own property of an object, \<^verbatim>\<open>undefined\<close> (here \<open>None\<close>) on any other
  non-null value. Reading a property of null throws; \<open>get\<close> is only used where the
  script has excluded null, \<open>get_prop\<close> where it has not.
\<close>

fun get :: "json \<Rightarrow> string \<Rightarrow> json option" where
  "get (JObj kvs) k = map_of kvs k"
| "get v k = None"

definition get_prop :: "json \<Rightarrow> string \<Rightarrow> js_error + json option" where
  "get_prop v k =
     (if v = JNull then Inl (TypeError (''Cannot read properties of null (reading '' @ [CHR 0x27] @ k @ [CHR 0x27] @ '')''))
      else Inr (get v k))"

text \<open>Truthiness of a value that may be \<^verbatim>\<open>undefined\<close>.\<close>

definition truthy_opt :: "json option \<Rightarrow> bool" where
  "truthy_opt ov = (case ov of None \<Rightarrow> False | Some v \<Rightarrow> truthy v)"

subsection \<open>Numbers to text\<close>

definition digit_char :: "nat \<Rightarrow> char" where
  "digit_char d = char_of (48 + d)"

fun show_nat :: "nat \<Rightarrow> string" where
  "show_nat n = (if n < 10 then [digit_char n] else show_nat (n div 10) @ [digit_char (n mod 10)])"

declare show_nat.simps [simp del]

text \<open>
  \<^verbatim>\<open>Number.prototype.toString\<close> on the decimal \<open>m * 10 ^ e\<close>, in positional notation.
  (The runtime switches to exponent notation from \<open>1e21\<close> on and below \<open>1e-6\<close>, and rounds
  to a double; both are outside this model.)
\<close>

definition show_num :: "int \<Rightarrow> int \<Rightarrow> string" where
  "show_num m e =
     (let ds = show_nat (nat \<bar>m\<bar>); k = nat (- e);
          body = (if 0 \<le> e then ds @ replicate (nat e) (CHR ''0'')
                  else if k < length ds then take (length ds - k) ds @ ''.'' @ drop (length ds - k) ds
                  else ''0.'' @ replicate (k - length ds) (CHR ''0'') @ ds)
      in (if m < 0 then ''-'' else '''') @ body)"

subsection \<open>ToString\<close>

text \<open>Joining strings with a separator, as \<^verbatim>\<open>Array.prototype.join\<close> does once the elements are strings.\<close>

fun join :: "string \<Rightarrow> string list \<Rightarrow> string" where
  "join sep [] = []"
| "join sep [x] = x"
| "join sep (x # y # ys) = x @ sep @ join sep (y # ys)"

text \<open>Collecting results, stopping at the first error.\<close>

fun sequence :: "('e + 'a) list \<Rightarrow> 'e + 'a list" where
  "sequence [] = Inr []"
| "sequence (x # xs) =
     (case x of Inl e \<Rightarrow> Inl e
      | Inr a \<Rightarrow> (case sequence xs of Inl e \<Rightarrow> Inl e | Inr as \<Rightarrow> Inr (a # as)))"

text \<open>
  The abstract operation ToString, used by template literals, string concatenation,
  \<^verbatim>\<open>String(v)\<close>, \<^verbatim>\<open>v.toString()\<close> and \<^verbatim>\<open>join\<close>. An array is joined with commas, its null
  elements giving the empty string. A plain object gives \<^verbatim>\<open>[object Object]\<close>, unless it has
  an own property \<^verbatim>\<open>toString\<close>: that property shadows the inherited method with a value
  that is not callable, and the conversion throws a TypeError.
\<close>

fun js_toString :: "json \<Rightarrow> js_error + string"
  and js_toString_elems :: "json list \<Rightarrow> (js_error + string) list" where
  "js_toString JNull = Inr ''null''"
| "js_toString (JBool b) = Inr (if b then ''true'' else ''false'')"
| "js_toString (JNum m e) = Inr (show_num m e)"
| "js_toString (JStr s) = Inr s"
| "js_toString (JArr xs) =
     (case sequence (js_toString_elems xs) of Inl e \<Rightarrow> Inl e | Inr ss \<Rightarrow> Inr (join '','' ss))"
| "js_toString (JObj kvs) =
     (if map_of kvs ''toString'' \<noteq> None then Inl (TypeError ''Cannot convert object to primitive value'')
      else Inr ''[object Object]'')"
| "js_toString_elems [] = []"
| "js_toString_elems (x # xs) = (if x = JNull then Inr '''' else js_toString x) # js_toString_elems xs"

text \<open>\<^verbatim>\<open>arr.join(sep)\<close> on an array value.\<close>

definition array_join :: "string \<Rightarrow> json list \<Rightarrow> js_error + string" where
  "array_join sep xs =
     (case sequence (js_toString_elems xs) of Inl e \<Rightarrow> Inl e | Inr ss \<Rightarrow> Inr (join sep ss))"

section \<open>JSON.stringify with an indentation of two spaces\<close>

definition hex_char :: "nat \<Rightarrow> char" where
  "hex_char d = (if d < 10 then char_of (48 + d) else char_of (87 + d))"

text \<open>
  QuoteJSONString, one code unit at a time: the quotation mark and the backslash are
  escaped, the control characters below 0x20 are written with their short escape or as
  \<^verbatim>\<open>\u00XX\<close>, every other code unit is copied.
\<close>

definition quote_unit :: "char \<Rightarrow> string" where
  "quote_unit c =
     (if c = CHR 0x22 then [CHR 0x5C, CHR 0x22]
      else if c = CHR 0x5C then [CHR 0x5C, CHR 0x5C]
      else if c = CHR 0x08 then [CHR 0x5C, CHR ''b'']
      else if c = CHR 0x0C then [CHR 0x5C, CHR ''f'']
      else if c = CHR 0x0A then [CHR 0x5C, CHR ''n'']
      else if c = CHR 0x0D then [CHR 0x5C, CHR ''r'']
      else if c = CHR 0x09 then [CHR 0x5C, CHR ''t'']
      else if (of_char c :: nat) < 32
        then [CHR 0x5C, CHR ''u'', CHR ''0'', CHR ''0'', hex_char (of_char c div 16), hex_char (of_char c mod 16)]
      else [c])"

definition QuoteJSONString :: "string \<Rightarrow> string" where
  "QuoteJSONString s = CHR 0x22 # concat (map quote_unit s) @ [CHR 0x22]"

text \<open>A line break followed by the indentation.\<close>

definition newline :: "nat \<Rightarrow> string" where
  "newline ind = CHR 0x0A # replicate ind (CHR '' '')"

text \<open>
  SerializeJSONProperty with gap \<^verbatim>\<open>"  "\<close>; \<open>ind\<close> is the indentation of the enclosing
  line. Elements and members are separated by a comma and a line break; an empty array
  or object is written without a line break.
\<close>

fun stringify :: "nat \<Rightarrow> json \<Rightarrow> string"
  and stringify_elems :: "nat \<Rightarrow> json list \<Rightarrow> string"
  and stringify_members :: "nat \<Rightarrow> (string \<times> json) list \<Rightarrow> string" where
  "stringify ind JNull = ''null''"
| "stringify ind (JBool b) = (if b then ''true'' else ''false'')"
| "stringify ind (JNum m e) = show_num m e"
| "stringify ind (JStr s) = QuoteJSONString s"
| "stringify ind (JArr xs) =
     (if xs = [] then ''[]''
      else ''['' @ newline (ind + 2) @ stringify_elems (ind + 2) xs @ newline ind @ '']'')"
| "stringify ind (JObj kvs) =
     (if kvs = [] then ''{}''
      else ''{'' @ newline (ind + 2) @ stringify_members (ind + 2) kvs @ newline ind @ ''}'')"
| "stringify_elems ind [] = []"
| "stringify_elems ind (x # xs) =
     stringify ind x @ (if xs = [] then [] else '','' @ newline ind @ stringify_elems ind xs)"
| "stringify_members ind [] = []"
| "stringify_members ind ((k, v) # kvs) =
     QuoteJSONString k @ '': '' @ stringify ind v
       @ (if kvs = [] then [] else '','' @ newline ind @ stringify_members ind kvs)"

text \<open>\<^verbatim>\<open>JSON.stringify(v, null, 2)\<close>.\<close>

definition JSON_stringify :: "json \<Rightarrow> string" where
  "JSON_stringify v = stringify 0 v"

section \<open>Objects: own properties in enumeration order\<close>

definition is_digit :: "char \<Rightarrow> bool" where
  "is_digit c = (48 \<le> (of_char c :: nat) \<and> (of_char c :: nat) \<le> 57)"

definition nat_of_digits :: "string \<Rightarrow> nat" where
  "nat_of_digits ds = foldl (\<lambda>a c. 10 * a + (of_char c - 48)) 0 ds"

text \<open>
  An array index is the canonical decimal text of a number below \<open>2^32 - 1\<close>. Property
  keys that are array indices are enumerated first, in ascending order; the other keys
  follow in the order in which they were created.
\<close>

definition is_index :: "string \<Rightarrow> bool" where
  "is_index k = (k \<noteq> [] \<and> list_all is_digit k \<and> (if hd k = CHR ''0'' then k = ''0'' else True)
                  \<and> nat_of_digits k < 4294967295)"

fun obj_update :: "string \<Rightarrow> json \<Rightarrow> (string \<times> json) list \<Rightarrow> (string \<times> json) list" where
  "obj_update k v [] = []"
| "obj_update k v ((k', v') # kvs) =
     (if k' = k then (k, v) # kvs else (k', v') # obj_update k v kvs)"

fun obj_insert_index :: "string \<Rightarrow> json \<Rightarrow> (string \<times> json) list \<Rightarrow> (string \<times> json) list" where
  "obj_insert_index k v [] = [(k, v)]"
| "obj_insert_index k v ((k', v') # kvs) =
     (if is_index k' \<and> nat_of_digits k' \<le> nat_of_digits k then (k', v') # obj_insert_index k v kvs
      else (k, v) # (k', v') # kvs)"

text \<open>
  \<^verbatim>\<open>obj[k] = v\<close> on a plain object: an existing property keeps its place and takes the new
  value; a new one is created, among the indices (after those that are not greater) or at
  the end.
\<close>

definition obj_put :: "string \<Rightarrow> json \<Rightarrow> (string \<times> json) list \<Rightarrow> (string \<times> json) list" where
  "obj_put k v kvs =
     (if map_of kvs k \<noteq> None then obj_update k v kvs
      else if is_index k then obj_insert_index k v kvs
      else kvs @ [(k, v)])"

text \<open>The object that JSON.parse builds from the members of an object text, in source order.\<close>

definition object_of :: "(string \<times> json) list \<Rightarrow> (string \<times> json) list" where
  "object_of kvs = foldl (\<lambda>obj (k, v). obj_put k v obj) [] kvs"

section \<open>JSON.parse\<close>

definition is_ws :: "char \<Rightarrow> bool" where
  "is_ws c = (c = CHR '' '' \<or> c = CHR 0x09 \<or> c = CHR 0x0A \<or> c = CHR 0x0D)"

definition skip_ws :: "string \<Rightarrow> string" where
  "skip_ws cs = dropWhile is_ws cs"

definition hex_val :: "char \<Rightarrow> nat option" where
  "hex_val c =
     (let n = (of_char c :: nat) in
      if 48 \<le> n \<and> n \<le> 57 then Some (n - 48)
      else if 97 \<le> n \<and> n \<le> 102 then Some (n - 87)
      else if 65 \<le> n \<and> n \<le> 70 then Some (n - 55)
      else None)"

text \<open>The character named by a one-letter escape.\<close>

definition unescape :: "char \<Rightarrow> char option" where
  "unescape c =
     (if c = CHR 0x22 then Some (CHR 0x22)
      else if c = CHR 0x5C then Some (CHR 0x5C)
      else if c = CHR ''/'' then Some (CHR ''/'')
      else if c = CHR ''b'' then Some (CHR 0x08)
      else if c = CHR ''f'' then Some (CHR 0x0C)
      else if c = CHR ''n'' then Some (CHR 0x0A)
      else if c = CHR ''r'' then Some (CHR 0x0D)
      else if c = CHR ''t'' then Some (CHR 0x09)
      else None)"

definition cons_result :: "char \<Rightarrow> (string \<times> string) option \<Rightarrow> (string \<times> string) option" where
  "cons_result c r = (case r of None \<Rightarrow> None | Some (s, rest) \<Rightarrow> Some (c # s, rest))"

text \<open>
  The characters of a string after its opening quotation mark, up to the closing one;
  the result is the string and the text that follows. A \<^verbatim>\<open>\uXXXX\<close> escape of a code unit
  above 0xFF has no counterpart in \<^typ>\<open>char\<close> and is refused.
\<close>

fun parse_chars :: "string \<Rightarrow> (string \<times> string) option" where
  "parse_chars [] = None"
| "parse_chars (c # cs) =
     (if c = CHR 0x22 then Some ([], cs)
      else if c = CHR 0x5C then
        (case cs of
           [] \<Rightarrow> None
         | e # cs1 \<Rightarrow>
             if e = CHR ''u'' then
               (case cs1 of
                  h1 # h2 # h3 # h4 # cs2 \<Rightarrow>
                    (case (hex_val h1, hex_val h2, hex_val h3, hex_val h4) of
                       (Some a, Some b, Some c3, Some d) \<Rightarrow>
                         if a = 0 \<and> b = 0 then cons_result (char_of (16 * c3 + d)) (parse_chars cs2)
                         else None
                     | _ \<Rightarrow> None)
                | _ \<Rightarrow> None)
             else (case unescape e of None \<Rightarrow> None | Some ch \<Rightarrow> cons_result ch (parse_chars cs1)))
      else if (of_char c :: nat) < 32 then None
      else cons_result c (parse_chars cs))"

text \<open>Dropping the trailing zeros of a mantissa.\<close>

fun norm_dec :: "nat \<Rightarrow> int \<Rightarrow> nat \<times> int" where
  "norm_dec m e =
     (if m = 0 then (0, 0)
      else if m mod 10 = 0 then norm_dec (m div 10) (e + 1)
      else (m, e))"

declare norm_dec.simps [simp del]

text \<open>
  A number: an optional minus sign, an integer part without leading zeros, an optional
  fraction and an optional exponent. Each part returns what it has read and the text
  that follows; a fraction or an exponent without digits is a syntax error.
\<close>

definition int_part :: "string \<Rightarrow> (string \<times> string) option" where
  "int_part cs =
     (let ip = (if cs \<noteq> [] \<and> hd cs = CHR ''0'' then ''0'' else takeWhile is_digit cs)
      in if ip = [] then None else Some (ip, drop (length ip) cs))"

definition frac_part :: "string \<Rightarrow> (string \<times> string) option" where
  "frac_part cs =
     (if cs \<noteq> [] \<and> hd cs = CHR ''.'' then
        (let fp = takeWhile is_digit (tl cs)
         in if fp = [] then None else Some (fp, drop (length fp) (tl cs)))
      else Some ([], cs))"

definition exp_part :: "string \<Rightarrow> (int \<times> string) option" where
  "exp_part cs =
     (if cs \<noteq> [] \<and> (hd cs = CHR ''e'' \<or> hd cs = CHR ''E'') then
        (let cs1 = tl cs;
             eneg = (cs1 \<noteq> [] \<and> hd cs1 = CHR ''-'');
             cs2 = (if cs1 \<noteq> [] \<and> (hd cs1 = CHR ''-'' \<or> hd cs1 = CHR ''+'') then tl cs1 else cs1);
             ep = takeWhile is_digit cs2
         in if ep = [] then None
            else Some (if eneg then - int (nat_of_digits ep) else int (nat_of_digits ep),
                       drop (length ep) cs2))
      else Some (0, cs))"

text \<open>The exact decimal with the digits \<open>ip\<close> before and \<open>fp\<close> after the point, times \<open>10 ^ ex\<close>.\<close>

definition make_num :: "bool \<Rightarrow> string \<Rightarrow> string \<Rightarrow> int \<Rightarrow> json" where
  "make_num neg ip fp ex =
     (case norm_dec (nat_of_digits (ip @ fp)) (ex - int (length fp)) of
        (m, e) \<Rightarrow> JNum (if neg then - int m else int m) e)"

definition parse_number :: "string \<Rightarrow> (json \<times> string) option" where
  "parse_number cs =
     (let neg = (cs \<noteq> [] \<and> hd cs = CHR ''-'');
          cs1 = (if neg then tl cs else cs)
      in case int_part cs1 of
           None \<Rightarrow> None
         | Some (ip, cs2) \<Rightarrow>
             (case frac_part cs2 of
                None \<Rightarrow> None
              | Some (fp, cs3) \<Rightarrow>
                  (case exp_part cs3 of
                     None \<Rightarrow> None
                   | Some (ex, cs4) \<Rightarrow> Some (make_num neg ip fp ex, cs4))))"

text \<open>
  A value, the elements of an array after its opening bracket, and the members of an
  object after its opening brace. Each returns the text that follows what it has read.
  The comparisons of lengths hold whenever they are reached (the text that remains is
  shorter); they are there for the termination proof.
\<close>

function (sequential) parse_value :: "string \<Rightarrow> (json \<times> string) option"
  and parse_elems :: "string \<Rightarrow> (json list \<times> string) option"
  and parse_members :: "string \<Rightarrow> ((string \<times> json) list \<times> string) option" where
  "parse_value [] = None"
| "parse_value (c # cs) =
     (if c = CHR ''{'' then
        (case skip_ws cs of
           [] \<Rightarrow> None
         | d # r \<Rightarrow>
             if d = CHR ''}'' then Some (JObj [], r)
             else (case parse_members (d # r) of
                     None \<Rightarrow> None
                   | Some (kvs, r') \<Rightarrow> Some (JObj (object_of kvs), r')))
      else if c = CHR ''['' then
        (case skip_ws cs of
           [] \<Rightarrow> None
         | d # r \<Rightarrow>
             if d = CHR '']'' then Some (JArr [], r)
             else (case parse_elems (d # r) of
                     None \<Rightarrow> None
                   | Some (vs, r') \<Rightarrow> Some (JArr vs, r')))
      else if c = CHR 0x22 then
        (case parse_chars cs of None \<Rightarrow> None | Some (s, r) \<Rightarrow> Some (JStr s, r))
      else if take 4 (c # cs) = ''true'' then Some (JBool True, drop 4 (c # cs))
      else if take 5 (c # cs) = ''false'' then Some (JBool False, drop 5 (c # cs))
      else if take 4 (c # cs) = ''null'' then Some (JNull, drop 4 (c # cs))
      else if c = CHR ''-'' \<or> is_digit c then parse_number (c # cs)
      else None)"
| "parse_elems cs =
     (case parse_value cs of
        None \<Rightarrow> None
      | Some (v, r) \<Rightarrow>
          (case skip_ws r of
             [] \<Rightarrow> None
           | d # r1 \<Rightarrow>
               if d = CHR '']'' then Some ([v], r1)
               else if d = CHR '','' \<and> length r1 < length cs then
                 (case parse_elems (skip_ws r1) of
                    None \<Rightarrow> None
                  | Some (vs, r2) \<Rightarrow> Some (v # vs, r2))
               else None))"
| "parse_members cs =
     (case cs of
        [] \<Rightarrow> None
      | q # cs1 \<Rightarrow>
          if q \<noteq> CHR 0x22 then None
          else
            (case parse_chars cs1 of
               None \<Rightarrow> None
             | Some (k, r) \<Rightarrow>
                 (case skip_ws r of
                    [] \<Rightarrow> None
                  | col # r1 \<Rightarrow>
                      if col = CHR '':'' \<and> length r1 < length cs then
                        (case parse_value (skip_ws r1) of
                           None \<Rightarrow> None
                         | Some (v, r2) \<Rightarrow>
                             (case skip_ws r2 of
                                [] \<Rightarrow> None
                              | d # r3 \<Rightarrow>
                                  if d = CHR ''}'' then Some ([(k, v)], r3)
                                  else if d = CHR '','' \<and> length r3 < length cs then
                                    (case parse_members (skip_ws r3) of
                                       None \<Rightarrow> None
                                     | Some (kvs, r4) \<Rightarrow> Some ((k, v) # kvs, r4))
                                  else None))
                      else None)))"
  by pat_completeness auto

lemma length_skip_ws: "length (skip_ws cs) \<le> length cs"
  by (simp add: skip_ws_def length_dropWhile_le)

lemma skip_ws_Cons_length: "skip_ws cs = d # r \<Longrightarrow> length r < length cs"
  using length_skip_ws [of cs] by simp

lemma skip_ws_less: "length r < n \<Longrightarrow> length (skip_ws r) < n"
  using length_skip_ws [of r] by simp

termination parse_value
  apply (relation "measure (\<lambda>x. case x of Inl cs \<Rightarrow> 2 * length cs
                                | Inr (Inl cs) \<Rightarrow> 2 * length cs + 1
                                | Inr (Inr cs) \<Rightarrow> 2 * length cs + 1)")
         apply (auto dest: skip_ws_Cons_length)
    apply (frule skip_ws_less, arith)+
  done

declare parse_value.simps [simp del] parse_elems.simps [simp del] parse_members.simps [simp del]

text \<open>\<^verbatim>\<open>JSON.parse(text)\<close>; \<open>None\<close> stands for the SyntaxError it throws.\<close>

definition JSON_parse :: "string \<Rightarrow> json option" where
  "JSON_parse s =
     (case parse_value (skip_ws s) of
        None \<Rightarrow> None
      | Some (v, r) \<Rightarrow> if skip_ws r = [] then Some v else None)"

section \<open>The results directory\<close>

text \<open>
  The script works in one directory, \<^verbatim>\<open>allureDir\<close>. Its path is missing, or names something
  that is not a directory, or names a directory: the list of its entries in the order
  \<^verbatim>\<open>readdirSync\<close> returns them, each a file with its text or a subdirectory. The script
  addresses an entry by \<^verbatim>\<open>path.join(allureDir, name)\<close> and gets the name back with
  \<^verbatim>\<open>path.basename\<close>; the model addresses it by its name.
\<close>

datatype node = File string | Subdir

datatype dir_state = Missing | NotDirectory | Directory "(string \<times> node) list"

definition existsSync :: "dir_state \<Rightarrow> bool" where
  "existsSync d = (d \<noteq> Missing)"

definition readdirSync :: "dir_state \<Rightarrow> js_error + string list" where
  "readdirSync d =
     (case d of
        Missing \<Rightarrow> Inl (SystemError ''ENOENT: no such file or directory, scandir'')
      | NotDirectory \<Rightarrow> Inl (SystemError ''ENOTDIR: not a directory, scandir'')
      | Directory es \<Rightarrow> Inr (map fst es))"

definition readFileSync :: "dir_state \<Rightarrow> string \<Rightarrow> js_error + string" where
  "readFileSync d name =
     (case d of
        Directory es \<Rightarrow>
          (case map_of es name of
             Some (File text) \<Rightarrow> Inr text
           | Some Subdir \<Rightarrow> Inl (SystemError ''EISDIR: illegal operation on a directory, read'')
           | None \<Rightarrow> Inl (SystemError ''ENOENT: no such file or directory, open''))
      | _ \<Rightarrow> Inl (SystemError ''ENOENT: no such file or directory, open''))"

text \<open>Replacing the text of an entry, or creating the entry at the end.\<close>

fun put_entry :: "string \<Rightarrow> string \<Rightarrow> (string \<times> node) list \<Rightarrow> (string \<times> node) list" where
  "put_entry name text [] = [(name, File text)]"
| "put_entry name text ((n, x) # es) =
     (if n = name then (n, File text) # es else (n, x) # put_entry name text es)"

text \<open>
  \<^verbatim>\<open>fs.writeFileSync(path, data, 'utf8')\<close>. Data that is not a string is refused with a
  TypeError (Node 14 and later); so is a path that names a directory, or a path in a
  directory that does not exist. Other failures of the operating system (permissions,
  a full disk) are not modelled.
\<close>

definition writeFileSync :: "dir_state \<Rightarrow> string \<Rightarrow> json \<Rightarrow> js_error + dir_state" where
  "writeFileSync d name data =
     (case data of
        JStr text \<Rightarrow>
          (case d of
             Directory es \<Rightarrow>
               (if map_of es name = Some Subdir
                then Inl (SystemError ''EISDIR: illegal operation on a directory, open'')
                else Inr (Directory (put_entry name text es)))
           | _ \<Rightarrow> Inl (SystemError ''ENOENT: no such file or directory, open''))
      | _ \<Rightarrow> Inl (TypeError ''The data argument must be of type string or an instance of Buffer, TypedArray, or DataView.''))"

section \<open>findFailedResults\<close>

text \<open>An element \<^verbatim>\<open>{ file: p, json }\<close> of the list of failures.\<close>

record failure =
  file_name :: string
  json :: json

definition endsWith :: "string \<Rightarrow> string \<Rightarrow> bool" where
  "endsWith s suffix = (length suffix \<le> length s \<and> drop (length s - length suffix) s = suffix)"

text \<open>
  The body of the \<^verbatim>\<open>forEach\<close> in \<^verbatim>\<open>findFailedResults\<close>: the record of one file when the file
  can be read, parses and has the status failed or broken; nothing otherwise (the
  \<^verbatim>\<open>catch\<close> ignores a file that cannot be read, a text that does not parse, and the
  TypeError of reading \<^verbatim>\<open>status\<close> from null).
\<close>

definition failed_of :: "dir_state \<Rightarrow> string \<Rightarrow> failure list" where
  "failed_of d name =
     (case readFileSync d name of
        Inl e \<Rightarrow> []
      | Inr text \<Rightarrow>
          (case JSON_parse text of
             None \<Rightarrow> []
           | Some j \<Rightarrow>
               (case get_prop j ''status'' of
                  Inl e \<Rightarrow> []
                | Inr st \<Rightarrow>
                    if truthy_opt st \<and> (st = Some (JStr ''failed'') \<or> st = Some (JStr ''broken''))
                    then [\<lparr>file_name = name, json = j\<rparr>]
                    else [])))"

definition findFailedResults :: "dir_state \<Rightarrow> js_error + failure list" where
  "findFailedResults d =
     (if \<not> existsSync d then Inr []
      else (case readdirSync d of
              Inl e \<Rightarrow> Inl e
            | Inr names \<Rightarrow> Inr (concat (map (failed_of d) (filter (\<lambda>f. endsWith f ''.json'') names)))))"

section \<open>buildPrompt\<close>

text \<open>Running the rest of a block when a step has not thrown.\<close>

definition and_then :: "'e + 'a \<Rightarrow> ('a \<Rightarrow> 'e + 'b) \<Rightarrow> 'e + 'b" where
  "and_then r f = (case r of Inl e \<Rightarrow> Inl e | Inr a \<Rightarrow> f a)"

text \<open>\<^verbatim>\<open>v || d\<close> for a value that may be \<^verbatim>\<open>undefined\<close>.\<close>

definition or_default :: "json option \<Rightarrow> json \<Rightarrow> json" where
  "or_default ov d = (case ov of None \<Rightarrow> d | Some v \<Rightarrow> if truthy v then v else d)"

text \<open>
  \<^verbatim>\<open>v.statusDetails && v.statusDetails.k\<close>, as far as its truthiness and, when truthy, its
  value go: the property \<open>k\<close> of a truthy \<^verbatim>\<open>statusDetails\<close>.
\<close>

definition details :: "json \<Rightarrow> string \<Rightarrow> json option" where
  "details v k =
     (case get v ''statusDetails'' of
        None \<Rightarrow> None
      | Some sd \<Rightarrow> if truthy sd then get sd k else None)"

text \<open>
  The callback of \<^verbatim>\<open>test.json.steps.forEach((s, i) => ...)\<close>: the lines it pushes for the
  step \<open>s\<close> at index \<open>i\<close>. Reading \<^verbatim>\<open>s.status\<close> throws when \<open>s\<close> is null.
\<close>

definition step_lines :: "nat \<Rightarrow> json \<Rightarrow> js_error + json list" where
  "step_lines i s =
     and_then (get_prop s ''status'') (\<lambda>st.
     and_then (js_toString (or_default (get s ''name'') (JStr ''<step>''))) (\<lambda>name.
     and_then (js_toString (or_default st (JStr ''unknown''))) (\<lambda>status.
       let line = JStr (show_nat (i + 1) @ ''. '' @ name @ '' - '' @ status) in
       if st = Some (JStr ''failed'') \<and> truthy_opt (details s ''message'')
       then and_then (js_toString (or_default (details s ''message'') JNull)) (\<lambda>m.
              Inr [line, JStr (''   Step error: '' @ m)])
       else Inr [line])))"

text \<open>The \<^verbatim>\<open>forEach\<close> itself: the steps from index \<open>i\<close> on, pushing onto \<open>lines\<close>.\<close>

fun steps_loop :: "json list \<Rightarrow> nat \<Rightarrow> json list \<Rightarrow> js_error + json list" where
  "steps_loop [] i lines = Inr lines"
| "steps_loop (s # ss) i lines =
     and_then (step_lines i s) (\<lambda>new. steps_loop ss (i + 1) (lines @ new))"

definition preamble :: "json list" where
  "preamble =
     [JStr ''You are an expert Playwright + Cucumber engineer.'',
      JStr ''Analyze the failing test and provide a concise JSON with keys: summary, probable_root_cause, confidence, suggested_fix, immediate_workaround, files_to_change (array), allure_attachment (markdown string).'',
      JStr ''Do not include secrets. Keep suggested_fix short and actionable.'',
      JStr ''---'']"

text \<open>The lines up to and including the error message.\<close>

definition head_lines :: "json \<Rightarrow> js_error + json list" where
  "head_lines j =
     and_then (js_toString (or_default (get j ''name'') (JStr ''Unknown''))) (\<lambda>name.
     and_then (if truthy_opt (get j ''fullName'')
               then and_then (js_toString (or_default (get j ''fullName'') JNull)) (\<lambda>full.
                      Inr [JStr (''Full name: '' @ full)])
               else Inr []) (\<lambda>full_line.
       Inr (preamble @ [JStr (''Test name: '' @ name)] @ full_line
            @ (if truthy_opt (details j ''message'')
               then [JStr ''Error message:'', or_default (details j ''message'') JNull]
               else []))))"

text \<open>The lines of the steps: nothing unless \<^verbatim>\<open>steps\<close> is an array that is not empty.\<close>

definition steps_section :: "json \<Rightarrow> json list \<Rightarrow> js_error + json list" where
  "steps_section j lines =
     (case get j ''steps'' of
        Some (JArr (s # ss)) \<Rightarrow> steps_loop (s # ss) 0 (lines @ [JStr ''Steps:''])
      | _ \<Rightarrow> Inr lines)"

text \<open>The stack trace: \<^verbatim>\<open>trace.toString().slice(0, 3000)\<close>.\<close>

definition trace_section :: "json \<Rightarrow> js_error + json list" where
  "trace_section j =
     (if truthy_opt (details j ''trace'')
      then and_then (js_toString (or_default (details j ''trace'') JNull)) (\<lambda>t.
             Inr [JStr ''Stack trace:'', JStr (take 3000 t)])
      else Inr [])"

text \<open>
  \<^verbatim>\<open>buildPrompt(test)\<close>, on the document \<^verbatim>\<open>test.json\<close>: the lines joined with line breaks, or
  the TypeError that one of the conversions or a null step has thrown.
\<close>

definition prompt_lines :: "json \<Rightarrow> js_error + json list" where
  "prompt_lines j =
     and_then (head_lines j) (\<lambda>l1.
     and_then (steps_section j l1) (\<lambda>l2.
     and_then (trace_section j) (\<lambda>l3.
       Inr (l2 @ l3 @ [JStr ''---'', JStr ''Provide the JSON only.'']))))"

definition buildPrompt :: "failure \<Rightarrow> js_error + string" where
  "buildPrompt test = and_then (prompt_lines (json test)) (array_join [CHR 0x0A])"

section \<open>The two transports\<close>

text \<open>
  What the model service or the local executable answers is not decided by the script.
  It is a parameter: for the call with a given number, what \<^verbatim>\<open>fetch\<close> and \<^verbatim>\<open>res.text()\<close> do
  (a rejection with its message, or a response with status, status text and body), and
  what \<^verbatim>\<open>spawnSync\<close> returns (an error, or the exit status, which is null after a signal,
  with the captured error and output streams). The token limit only travels to the
  transport and is left out.
\<close>

datatype http_outcome = FetchRejects string | Response nat string string

datatype cli_outcome = SpawnError string | Exited "int option" string string

record world =
  http :: "nat \<Rightarrow> string \<Rightarrow> string \<Rightarrow> string \<Rightarrow> http_outcome"
  cli :: "nat \<Rightarrow> string \<Rightarrow> string \<Rightarrow> cli_outcome"

text \<open>
  \<^verbatim>\<open>callOllamaHttp\<close>: one POST to the base address (without one trailing slash) followed by
  the path. A status outside 200..299 and a rejection are both thrown again with the
  prefix of the outer \<^verbatim>\<open>catch\<close>; a body that does not parse is wrapped as \<^verbatim>\<open>{ raw: text }\<close>.
\<close>

definition endpoint :: "string \<Rightarrow> string \<Rightarrow> string" where
  "endpoint ollamaUrl apiPath =
     (let base = (if ollamaUrl \<noteq> [] \<and> last ollamaUrl = CHR ''/'' then butlast ollamaUrl else ollamaUrl)
      in if apiPath \<noteq> [] \<and> hd apiPath = CHR ''/'' then base @ apiPath else base @ ''/'' @ apiPath)"

definition callOllamaHttp :: "world \<Rightarrow> nat \<Rightarrow> string \<Rightarrow> string \<Rightarrow> string \<Rightarrow> string \<Rightarrow> js_error + json" where
  "callOllamaHttp w n ollamaUrl apiPath model prompt =
     (let url = endpoint ollamaUrl apiPath
      in case http w n url model prompt of
           FetchRejects m \<Rightarrow> Inl (Error (''Ollama HTTP call failed: '' @ m))
         | Response status statusText body \<Rightarrow>
             if \<not> (200 \<le> status \<and> status \<le> 299)
             then Inl (Error (''Ollama HTTP call failed: '' @ ''Ollama HTTP error '' @ show_nat status @ '' '' @ statusText))
             else (case JSON_parse body of
                     Some v \<Rightarrow> Inr v
                   | None \<Rightarrow> Inr (JObj [(''raw'', JStr body)])))"

text \<open>\<^verbatim>\<open>callOllamaCli\<close>: the prompt goes to the standard input; the output is returned as it is.\<close>

definition callOllamaCli :: "world \<Rightarrow> nat \<Rightarrow> string \<Rightarrow> string \<Rightarrow> js_error + string" where
  "callOllamaCli w n model prompt =
     (case cli w n model prompt of
        SpawnError m \<Rightarrow> Inl (Error (''Ollama CLI call failed: '' @ m))
      | Exited status stderr stdout \<Rightarrow>
          if status \<noteq> Some 0
          then Inl (Error (''Ollama CLI call failed: '' @ (if stderr \<noteq> [] then stderr else ''ollama CLI failed'')))
          else Inr stdout)"

section \<open>analyzeFailures\<close>

text \<open>The options and the environment variables that select the transport.\<close>

record opts =
  model :: "string option"
  ollamaUrl :: "string option"
  apiPath :: "string option"

record env =
  OLLAMA_URL :: "string option"
  OLLAMA_HOST :: "string option"

text \<open>\<^verbatim>\<open>a || b\<close> on strings that may be \<^verbatim>\<open>undefined\<close>.\<close>

definition str_or :: "string option \<Rightarrow> string option \<Rightarrow> string option" where
  "str_or a b = (case a of Some (c # cs) \<Rightarrow> a | _ \<Rightarrow> b)"

definition str_truthy :: "string option \<Rightarrow> bool" where
  "str_truthy a = (case a of Some (c # cs) \<Rightarrow> True | _ \<Rightarrow> False)"

definition str_or_default :: "string option \<Rightarrow> string \<Rightarrow> string" where
  "str_or_default a d = (case a of Some (c # cs) \<Rightarrow> c # cs | _ \<Rightarrow> d)"

text \<open>
  The choice of the text in an HTTP answer: a string as it is, else \<^verbatim>\<open>output\<close> (an array
  joined with line breaks, anything else converted with \<^verbatim>\<open>String\<close>), else \<^verbatim>\<open>text\<close>, else
  \<^verbatim>\<open>raw\<close>, else the whole answer serialized. The answer null throws at \<^verbatim>\<open>res.output\<close>.
\<close>

definition pick_text :: "json \<Rightarrow> js_error + json" where
  "pick_text res =
     (case res of
        JStr s \<Rightarrow> Inr (JStr s)
      | _ \<Rightarrow>
          and_then (get_prop res ''output'') (\<lambda>out.
            if truthy_opt out then
              (case out of
                 Some (JArr xs) \<Rightarrow> and_then (array_join [CHR 0x0A] xs) (\<lambda>t. Inr (JStr t))
               | _ \<Rightarrow> and_then (js_toString (or_default out JNull)) (\<lambda>t. Inr (JStr t)))
            else if truthy_opt (get res ''text'') then Inr (or_default (get res ''text'') JNull)
            else if truthy_opt (get res ''raw'') then Inr (or_default (get res ''raw'') JNull)
            else Inr (JStr (JSON_stringify res))))"

text \<open>The \<^verbatim>\<open>try\<close> block around the call: the value of \<^verbatim>\<open>analysisText\<close>, or what was thrown.\<close>

definition call_llm :: "world \<Rightarrow> opts \<Rightarrow> env \<Rightarrow> nat \<Rightarrow> string \<Rightarrow> js_error + json" where
  "call_llm w os ev n prompt =
     (let url = str_or (str_or (ollamaUrl os) (OLLAMA_URL ev)) (OLLAMA_HOST ev);
          m = str_or_default (model os) ''llama2''
      in if str_truthy url then
           and_then (callOllamaHttp w n (str_or_default url []) (str_or_default (apiPath os) ''/api/generate'') m prompt)
             pick_text
         else
           and_then (callOllamaCli w n m prompt) (\<lambda>cliOut.
             case JSON_parse cliOut of
               Some v \<Rightarrow> Inr (JStr (JSON_stringify v))
             | None \<Rightarrow> Inr (JStr cliOut)))"

text \<open>With the \<^verbatim>\<open>catch\<close>: a failure becomes the text that reports it.\<close>

definition llm_text :: "world \<Rightarrow> opts \<Rightarrow> env \<Rightarrow> nat \<Rightarrow> string \<Rightarrow> json" where
  "llm_text w os ev n prompt =
     (case call_llm w os ev n prompt of
        Inl err \<Rightarrow> JStr (''LLM call failed: '' @ message err)
      | Inr v \<Rightarrow> v)"

text \<open>\<^verbatim>\<open>if (typeof analysisText !== 'string') analysisText = JSON.stringify(analysisText, null, 2)\<close>.\<close>

definition to_text :: "json \<Rightarrow> string" where
  "to_text v = (case v of JStr s \<Rightarrow> s | _ \<Rightarrow> JSON_stringify v)"

text \<open>
  The normalization of the text: the value of \<^verbatim>\<open>pretty\<close>. A text that parses is serialized
  again when one of \<^verbatim>\<open>summary\<close>, \<^verbatim>\<open>probable_root_cause\<close>, \<^verbatim>\<open>allure_attachment\<close> is truthy;
  else a truthy \<^verbatim>\<open>raw\<close> is taken as it is (it need not be a string); else the text is
  serialized again. A text that does not parse is kept.
\<close>

definition recognized :: "json \<Rightarrow> bool" where
  "recognized parsed =
     (truthy parsed \<and> (truthy_opt (get parsed ''summary'') \<or> truthy_opt (get parsed ''probable_root_cause'')
                        \<or> truthy_opt (get parsed ''allure_attachment'')))"

definition normalize_text :: "string \<Rightarrow> json" where
  "normalize_text analysisText =
     (case JSON_parse analysisText of
        None \<Rightarrow> JStr analysisText
      | Some parsed \<Rightarrow>
          if recognized parsed then JStr (JSON_stringify parsed)
          else if truthy parsed \<and> truthy_opt (get parsed ''raw'') then or_default (get parsed ''raw'') JNull
          else JStr (JSON_stringify parsed))"

subsection \<open>The name of the analysis file\<close>

text \<open>The class \<^verbatim>\<open>[a-zA-Z0-9._-]\<close>.\<close>

definition is_safe :: "char \<Rightarrow> bool" where
  "is_safe c =
     (let n = (of_char c :: nat) in
      (97 \<le> n \<and> n \<le> 122) \<or> (65 \<le> n \<and> n \<le> 90) \<or> (48 \<le> n \<and> n \<le> 57)
      \<or> c = CHR ''.'' \<or> c = CHR ''_'' \<or> c = CHR ''-'')"

text \<open>\<^verbatim>\<open>s.replace(/[^a-zA-Z0-9._-]/g, '_')\<close>.\<close>

definition sanitize :: "string \<Rightarrow> string" where
  "sanitize s = map (\<lambda>c. if is_safe c then c else CHR ''_'') s"

text \<open>
  \<^verbatim>\<open>uuid\<close> is the sanitized base name of the record's file, and the analysis file is
  \<^verbatim>\<open>`${uuid}-llm-analysis.txt`\<close>.
\<close>

definition uuid :: "failure \<Rightarrow> string" where
  "uuid f = sanitize (file_name f)"

definition analysisFileName :: "failure \<Rightarrow> string" where
  "analysisFileName f = uuid f @ ''-llm-analysis.txt''"

subsection \<open>Attaching\<close>

text \<open>\<^verbatim>\<open>j[k] = v\<close>; the records of the script are objects.\<close>

fun set_prop :: "string \<Rightarrow> json \<Rightarrow> json \<Rightarrow> json" where
  "set_prop k v (JObj kvs) = JObj (obj_put k v kvs)"
| "set_prop k v j = j"

text \<open>
  \<^verbatim>\<open>xs.find(a => a.source === name)\<close>, as far as \<^verbatim>\<open>!already\<close> needs it: whether an element
  is found. The search stops at the first one; a null element before it throws.
\<close>

fun find_source :: "string \<Rightarrow> json list \<Rightarrow> js_error + bool" where
  "find_source name [] = Inr False"
| "find_source name (a # as) =
     and_then (get_prop a ''source'') (\<lambda>src.
       if src = Some (JStr name) then Inr True else find_source name as)"

definition attachment :: "string \<Rightarrow> json" where
  "attachment name =
     JObj [(''name'', JStr ''LLM failure analysis''), (''source'', JStr name), (''type'', JStr ''text/plain'')]"

text \<open>
  The changes to the document in the last \<^verbatim>\<open>try\<close> block: the document afterwards, and
  whether it is to be written. \<^verbatim>\<open>attachments\<close> is set to itself or to the empty array;
  a truthy value that is not an array has no \<^verbatim>\<open>find\<close>, and the call throws.
\<close>

definition attach_json :: "string \<Rightarrow> json \<Rightarrow> js_error + json \<times> bool" where
  "attach_json name j =
     (let atts = or_default (get j ''attachments'') (JArr []);
          j1 = set_prop ''attachments'' atts j
      in case atts of
           JArr xs \<Rightarrow>
             and_then (find_source name xs) (\<lambda>already.
               if \<not> already then Inr (set_prop ''attachments'' (JArr (xs @ [attachment name])) j1, True)
               else Inr (j1, False))
         | _ \<Rightarrow> Inl (TypeError ''json.attachments.find is not a function''))"

text \<open>
  The block with its \<^verbatim>\<open>catch\<close>: the record is written back when an attachment was added;
  whatever is thrown is logged and the directory stays as it was.
\<close>

definition attach :: "dir_state \<Rightarrow> failure \<Rightarrow> string \<Rightarrow> dir_state" where
  "attach d f name =
     (case attach_json name (json f) of
        Inl e \<Rightarrow> d
      | Inr (j', changed) \<Rightarrow>
          if changed then
            (case writeFileSync d (file_name f) (JStr (JSON_stringify j')) of
               Inl e \<Rightarrow> d
             | Inr d' \<Rightarrow> d')
          else d)"

subsection \<open>The loop over the failures\<close>

text \<open>
  The body of the loop for the failure \<open>f\<close>, the \<open>n\<close>-th call of the transport. The
  prompt and the write of the analysis file are outside every \<^verbatim>\<open>try\<close>: what they throw
  leaves the loop.
\<close>

definition analysis_text :: "world \<Rightarrow> opts \<Rightarrow> env \<Rightarrow> nat \<Rightarrow> string \<Rightarrow> json" where
  "analysis_text w os ev n prompt = normalize_text (to_text (llm_text w os ev n prompt))"

definition analyze_one :: "world \<Rightarrow> opts \<Rightarrow> env \<Rightarrow> nat \<Rightarrow> dir_state \<Rightarrow> failure \<Rightarrow> js_error + dir_state" where
  "analyze_one w os ev n d f =
     and_then (buildPrompt f) (\<lambda>prompt.
     and_then (writeFileSync d (analysisFileName f) (analysis_text w os ev n prompt)) (\<lambda>d1.
       Inr (attach d1 f (analysisFileName f))))"

fun analyze_loop :: "world \<Rightarrow> opts \<Rightarrow> env \<Rightarrow> nat \<Rightarrow> dir_state \<Rightarrow> failure list \<Rightarrow> js_error option \<times> dir_state" where
  "analyze_loop w os ev n d [] = (None, d)"
| "analyze_loop w os ev n d (f # fs) =
     (case analyze_one w os ev n d f of
        Inl err \<Rightarrow> (Some err, d)
      | Inr d1 \<Rightarrow> analyze_loop w os ev (n + 1) d1 fs)"

text \<open>
  \<^verbatim>\<open>analyzeFailures(opts)\<close>: the value it returns or the error it throws, and the directory
  afterwards.
\<close>

definition analyzeFailures :: "world \<Rightarrow> opts \<Rightarrow> env \<Rightarrow> dir_state \<Rightarrow> (js_error + int) \<times> dir_state" where
  "analyzeFailures w os ev d =
     (case findFailedResults d of
        Inl err \<Rightarrow> (Inl err, d)
      | Inr failures \<Rightarrow>
          if length failures = 0 then (Inr 0, d)
          else (case analyze_loop w os ev 0 d failures of
                  (None, d') \<Rightarrow> (Inr 0, d')
                | (Some err, d') \<Rightarrow> (Inl err, d')))"

text \<open>
  The program: \<^verbatim>\<open>process.exit(code)\<close> with the value of \<^verbatim>\<open>analyzeFailures\<close>, and
  \<^verbatim>\<open>process.exit(2)\<close> when it has thrown. The result is the exit code and the directory.
\<close>

definition run :: "world \<Rightarrow> opts \<Rightarrow> env \<Rightarrow> dir_state \<Rightarrow> int \<times> dir_state" where
  "run w os ev d =
     (case analyzeFailures w os ev d of
        (Inr code, d') \<Rightarrow> (code, d')
      | (Inl err, d') \<Rightarrow> (2, d'))"

section \<open>The words of the specification\<close>


text \<open>An attachment that refers to the file \<open>name\<close>, in the words of the specification.\<close>

definition refers :: "string \<Rightarrow> json \<Rightarrow> bool" where
  "refers name a = (get a ''source'' = Some (JStr name))"

text \<open>
  The specification's words for the lines of a step: the numbered line of the step at
  (zero-based) index \<open>i\<close>, and the block of a step, which is that line alone or that line
  followed by the indented error line.
\<close>

definition numbered_line :: "nat \<Rightarrow> string \<Rightarrow> string \<Rightarrow> string" where
  "numbered_line i name status = show_nat (i + 1) @ ''. '' @ name @ '' - '' @ status"

definition step_block :: "nat \<Rightarrow> json \<Rightarrow> json list \<Rightarrow> bool" where
  "step_block i s b =
     (\<exists>name status.
        js_toString (or_default (get s ''name'') (JStr ''<step>'')) = Inr name
      \<and> js_toString (or_default (get s ''status'') (JStr ''unknown'')) = Inr status
      \<and> (if get s ''status'' = Some (JStr ''failed'') \<and> truthy_opt (details s ''message'')
         then \<exists>m. js_toString (or_default (details s ''message'') JNull) = Inr m
                \<and> b = [JStr (numbered_line i name status), JStr (''   Step error: '' @ m)]
         else b = [JStr (numbered_line i name status)]))"

definition steps_of :: "json \<Rightarrow> json list" where
  "steps_of j = (case get j ''steps'' of Some (JArr ss) \<Rightarrow> ss | _ \<Rightarrow> [])"

definition trace_block :: "json \<Rightarrow> json list \<Rightarrow> bool" where
  "trace_block j tr =
     (if truthy_opt (details j ''trace'')
      then \<exists>t. js_toString (or_default (details j ''trace'') JNull) = Inr t
             \<and> tr = [JStr ''Stack trace:'', JStr (take 3000 t)]
      else tr = [])"

text \<open>
  Values whose conversion to a string cannot throw: every value but an object with a
  property \<^verbatim>\<open>toString\<close> of its own, in arrays as well. A step or a record is good when the
  values that the prompt converts are such values, and no step is null.
\<close>

fun convertible :: "json \<Rightarrow> bool" where
  "convertible (JObj kvs) = (map_of kvs ''toString'' = None)"
| "convertible (JArr xs) = (\<forall>x \<in> set xs. convertible x)"
| "convertible v = True"

definition convertible_opt :: "json option \<Rightarrow> bool" where
  "convertible_opt ov = (case ov of None \<Rightarrow> True | Some v \<Rightarrow> convertible v)"

definition good_step :: "json \<Rightarrow> bool" where
  "good_step s = (s \<noteq> JNull \<and> convertible_opt (get s ''name'') \<and> convertible_opt (get s ''status'')
                  \<and> convertible_opt (details s ''message''))"

definition good_record :: "json \<Rightarrow> bool" where
  "good_record j = (convertible_opt (get j ''name'') \<and> convertible_opt (get j ''fullName'')
                    \<and> convertible_opt (details j ''message'') \<and> convertible_opt (details j ''trace'')
                    \<and> (\<forall>s \<in> set (steps_of j). good_step s))"



text \<open>The names of the entries of a directory.\<close>

definition entries :: "dir_state \<Rightarrow> string list" where
  "entries d = (case d of Directory es \<Rightarrow> map fst es | _ \<Rightarrow> [])"

section \<open>Well-formed values\<close>








section \<open>Examples\<close>

text \<open>A transport that never answers, no options and an empty environment, for the examples.\<close>

definition failing_world :: world where
  "failing_world =
     \<lparr>http = (\<lambda>n url m prompt. FetchRejects ''fetch failed''),
      cli = (\<lambda>n m prompt. SpawnError ''spawnSync ollama ENOENT'')\<rparr>"

definition no_opts :: opts where
  "no_opts = \<lparr>model = None, ollamaUrl = None, apiPath = None\<rparr>"

definition no_env :: env where
  "no_env = \<lparr>OLLAMA_URL = None, OLLAMA_HOST = None\<rparr>"

definition failed_record_text :: string where
  \<open>failed_record_text = ''{"name": "t", "status": "failed"}''\<close>

definition two_files :: dir_state where
  "two_files = Directory [(''a.json'', File failed_record_text), (''b.txt'', File failed_record_text)]"

definition passed_record_text :: string where
  \<open>passed_record_text = ''{"name": "t", "status": "passed"}''\<close>

definition passed_files :: "(string \<times> node) list" where
  "passed_files = [(''a.json'', File passed_record_text), (''notes.json'', File ''not json''), (''sub.json'', Subdir)]"

definition bare_record :: "(string \<times> json) list" where
  "bare_record = [(''name'', JStr ''t''), (''status'', JStr ''failed'')]"



definition screenshot :: json where
  "screenshot = JObj [(''name'', JStr ''Screenshot''), (''source'', JStr ''shot.png''), (''type'', JStr ''image/png'')]"

definition record_with_screenshot :: "(string \<times> json) list" where
  "record_with_screenshot =
     [(''historyId'', JStr ''h1''), (''status'', JStr ''failed''),
      (''attachments'', JArr [screenshot]), (''labels'', JArr [JObj [(''name'', JStr ''feature'')]])]"

definition record_with_analysis :: "(string \<times> json) list" where
  "record_with_analysis =
     [(''historyId'', JStr ''h1''), (''status'', JStr ''failed''),
      (''attachments'', JArr [screenshot, attachment ''a.json-llm-analysis.txt'']),
      (''labels'', JArr [JObj [(''name'', JStr ''feature'')]])]"


text \<open>The scenario of the specification: two steps, the second one failed, and a trace of 5000 characters.\<close>

definition scenario :: failure where
  "scenario = \<lparr>file_name = ''s.json'', json = JObj
     [(''status'', JStr ''failed''), (''name'', JStr ''Fake failing scenario''),
      (''statusDetails'', JObj [(''message'', JStr ''TypeError: foo is not a function''),
                                (''trace'', JStr (replicate 5000 (CHR ''x'')))]),
      (''steps'', JArr [JObj [(''name'', JStr ''Given I do something''), (''status'', JStr ''passed'')],
                        JObj [(''name'', JStr ''When I trigger failure''), (''status'', JStr ''failed''),
                              (''statusDetails'', JObj [(''message'', JStr ''TypeError: foo is not a function'')])]])]\<rparr>"

definition scenario_prompt :: string where
  "scenario_prompt = join [CHR 0x0A]
     [''You are an expert Playwright + Cucumber engineer.'',
      ''Analyze the failing test and provide a concise JSON with keys: summary, probable_root_cause, confidence, suggested_fix, immediate_workaround, files_to_change (array), allure_attachment (markdown string).'',
      ''Do not include secrets. Keep suggested_fix short and actionable.'',
      ''---'',
      ''Test name: Fake failing scenario'',
      ''Error message:'',
      ''TypeError: foo is not a function'',
      ''Steps:'',
      ''1. Given I do something - passed'',
      ''2. When I trigger failure - failed'',
      ''   Step error: TypeError: foo is not a function'',
      ''Stack trace:'',
      replicate 3000 (CHR ''x''),
      ''---'',
      ''Provide the JSON only.'']"

text \<open>
  The record that \<^verbatim>\<open>fake-failure.js\<close> writes (without its time stamps, steps and labels):
  its identifier is \<^verbatim>\<open>fake-failed-1\<close> and its file is \<^verbatim>\<open>fake-failed-1-result.json\<close>.
\<close>

definition fixture_text :: string where
  \<open>fixture_text = ''{"uuid": "fake-failed-1", "name": "Fake failing scenario - LLM test", "status": "failed", "attachments": []}''\<close>

definition fixture_dir :: dir_state where
  "fixture_dir = Directory [(''fake-failed-1-result.json'', File fixture_text)]"

definition fixture_failure :: failure where
  "fixture_failure =
     \<lparr>file_name = ''fake-failed-1-result.json'',
      json = JObj [(''uuid'', JStr ''fake-failed-1''), (''name'', JStr ''Fake failing scenario - LLM test''),
                   (''status'', JStr ''failed''), (''attachments'', JArr [])]\<rparr>"



section \<open>Discovery\<close>

lemma failed_of_file_name: "f \<in> set (failed_of d name) \<Longrightarrow> file_name f = name"
  by (auto simp: failed_of_def split: sum.splits option.splits if_splits)

lemma findFailedResults_names:
  assumes "findFailedResults d = Inr fs" and "f \<in> set fs"
  shows "\<exists>names. readdirSync d = Inr names \<and> file_name f \<in> set names
           \<and> endsWith (file_name f) ''.json'' \<and> f \<in> set (failed_of d (file_name f))"
proof (cases "existsSync d")
  case False
  with assms show ?thesis by (simp add: findFailedResults_def)
next
  case True
  with assms obtain names where n: "readdirSync d = Inr names"
    and fs: "fs = concat (map (failed_of d) (filter (\<lambda>f. endsWith f ''.json'') names))"
    by (auto simp: findFailedResults_def split: sum.splits)
  from fs assms(2) obtain name where "name \<in> set names" "endsWith name ''.json''"
    "f \<in> set (failed_of d name)" by auto
  with n failed_of_file_name [of f d name] show ?thesis by auto
qed

section \<open>Records without failures\<close>



lemma analyzeFailures_code: "fst (analyzeFailures w os ev d) = Inr c \<Longrightarrow> c = 0"
  by (auto simp: analyzeFailures_def split: sum.splits prod.splits option.splits if_splits)

section \<open>Objects and assignment\<close>

lemma map_of_obj_update:
  "map_of kvs k \<noteq> None \<Longrightarrow> map_of (obj_update k v kvs) k' = (if k' = k then Some v else map_of kvs k')"
  by (induction kvs) auto

lemma map_of_obj_insert_index:
  "map_of kvs k = None \<Longrightarrow>
     map_of (obj_insert_index k v kvs) k' = (if k' = k then Some v else map_of kvs k')"
  by (induction kvs) (auto split: if_splits)

lemma map_of_append_new:
  "map_of kvs k = None \<Longrightarrow> map_of (kvs @ [(k, v)]) k' = (if k' = k then Some v else map_of kvs k')"
  by (induction kvs) (auto split: if_splits)

lemma map_of_obj_put: "map_of (obj_put k v kvs) k' = (if k' = k then Some v else map_of kvs k')"
proof (cases "map_of kvs k")
  case None
  then show ?thesis
    by (simp add: obj_put_def map_of_obj_insert_index map_of_append_new del: map_of_append)
next
  case (Some a)
  then show ?thesis
    by (simp add: obj_put_def map_of_obj_update)
qed

lemma obj_update_append_new:
  "map_of kvs k = None \<Longrightarrow> obj_update k v (kvs @ [(k, v')]) = kvs @ [(k, v)]"
  by (induction kvs) (auto split: if_splits)

lemma obj_update_same: "map_of kvs k = Some v \<Longrightarrow> obj_update k v kvs = kvs"
  by (induction kvs) (auto split: if_splits)

lemma obj_update_twice:
  "obj_update k v (obj_update k v' kvs) = obj_update k v kvs"
  by (induction kvs) auto

lemma not_index_attachments: "\<not> is_index ''attachments''"
  by (simp add: is_index_def is_digit_def)

lemma obj_put_attachments:
  "obj_put ''attachments'' v kvs =
     (if map_of kvs ''attachments'' = None then kvs @ [(''attachments'', v)]
      else obj_update ''attachments'' v kvs)"
  by (simp add: obj_put_def not_index_attachments)

lemma obj_put_attachments_twice:
  "obj_put ''attachments'' v (obj_put ''attachments'' v' kvs) = obj_put ''attachments'' v kvs"
  by (auto simp: obj_put_attachments obj_update_twice map_of_obj_update map_of_append_new
      obj_update_append_new simp del: map_of_append)

lemma obj_put_attachments_same:
  "map_of kvs ''attachments'' = Some v \<Longrightarrow> obj_put ''attachments'' v kvs = kvs"
  by (simp add: obj_put_attachments obj_update_same)





section \<open>Attaching\<close>

lemma attach_json_obj:
  assumes "or_default (get (JObj kvs) ''attachments'') (JArr []) = JArr xs"
  shows "attach_json name (JObj kvs) =
           and_then (find_source name xs) (\<lambda>already.
             if \<not> already then Inr (JObj (obj_put ''attachments'' (JArr (xs @ [attachment name])) kvs), True)
             else Inr (JObj (obj_put ''attachments'' (JArr xs) kvs), False))"
  using assms by (simp add: attach_json_def Let_def obj_put_attachments_twice cong: if_cong)

lemma find_source_False: "find_source name xs = Inr False \<Longrightarrow> filter (refers name) xs = []"
  by (induction xs) (auto simp: and_then_def get_prop_def refers_def split: if_splits)

lemma find_source_True: "find_source name xs = Inr True \<Longrightarrow> filter (refers name) xs \<noteq> []"
  by (induction xs) (auto simp: and_then_def get_prop_def refers_def split: if_splits)

lemma find_source_append:
  "find_source name xs = Inr False \<Longrightarrow> find_source name (xs @ ys) = find_source name ys"
  by (induction xs) (auto simp: and_then_def get_prop_def split: if_splits)

lemma find_source_attachment: "find_source name [attachment name] = Inr True"
  by (simp add: and_then_def get_prop_def attachment_def)

lemma refers_attachment: "refers name (attachment name)"
  by (simp add: refers_def attachment_def)

lemma attach_json_cases:
  assumes "attach_json name (JObj kvs) = Inr (j1, w1)"
    and "or_default (get (JObj kvs) ''attachments'') (JArr []) = JArr xs"
  shows "(find_source name xs = Inr False \<and> w1
            \<and> j1 = JObj (obj_put ''attachments'' (JArr (xs @ [attachment name])) kvs))
         \<or> (find_source name xs = Inr True \<and> \<not> w1
            \<and> j1 = JObj (obj_put ''attachments'' (JArr xs) kvs))"
proof (cases "find_source name xs")
  case (Inl e)
  with assms show ?thesis by (simp add: attach_json_obj and_then_def)
next
  case (Inr found)
  with assms show ?thesis by (cases found) (auto simp: attach_json_obj and_then_def)
qed

lemma attach_json_again:
  assumes "find_source name ys = Inr True"
  shows "attach_json name (JObj (obj_put ''attachments'' (JArr ys) kvs))
           = Inr (JObj (obj_put ''attachments'' (JArr ys) kvs), False)"
proof -
  have "or_default (get (JObj (obj_put ''attachments'' (JArr ys) kvs)) ''attachments'') (JArr []) = JArr ys"
    by (simp add: map_of_obj_put or_default_def)
  from attach_json_obj [OF this, of name] assms show ?thesis
    by (simp add: and_then_def obj_put_attachments_twice)
qed


section \<open>The lines of the prompt\<close>

lemma step_lines_block: "step_lines i s = Inr b \<Longrightarrow> step_block i s b"
  by (auto simp: step_lines_def step_block_def and_then_def get_prop_def numbered_line_def Let_def
      split: sum.splits if_splits)

lemma steps_loop_blocks:
  "steps_loop ss i lines = Inr out \<Longrightarrow>
     \<exists>blocks. out = lines @ concat blocks \<and> length blocks = length ss
       \<and> (\<forall>k < length ss. step_block (i + k) (ss ! k) (blocks ! k))"
proof (induction ss arbitrary: i lines out)
  case Nil
  then show ?case by simp
next
  case (Cons s ss)
  from Cons.prems obtain new where new: "step_lines i s = Inr new"
    and rest: "steps_loop ss (i + 1) (lines @ new) = Inr out"
    by (auto simp: and_then_def split: sum.splits)
  from Cons.IH [OF rest] obtain blocks where out: "out = (lines @ new) @ concat blocks"
    and len: "length blocks = length ss"
    and each: "\<forall>k < length ss. step_block (i + 1 + k) (ss ! k) (blocks ! k)"
    by blast
  have "\<forall>k < length (s # ss). step_block (i + k) ((s # ss) ! k) ((new # blocks) ! k)"
  proof (intro allI impI)
    fix k
    assume k: "k < length (s # ss)"
    show "step_block (i + k) ((s # ss) ! k) ((new # blocks) ! k)"
    proof (cases k)
      case 0
      with new show ?thesis by (simp add: step_lines_block)
    next
      case (Suc k')
      with k each show ?thesis by simp
    qed
  qed
  with out len show ?case
    by (intro exI [of _ "new # blocks"]) simp
qed

lemma steps_section_blocks:
  assumes "steps_section j l1 = Inr l2"
  shows "\<exists>blocks. l2 = l1 @ (if steps_of j = [] then [] else [JStr ''Steps:'']) @ concat blocks
           \<and> length blocks = length (steps_of j)
           \<and> (\<forall>k < length (steps_of j). step_block k (steps_of j ! k) (blocks ! k))"
proof (cases "\<exists>s ss. get j ''steps'' = Some (JArr (s # ss))")
  case True
  then obtain s ss where st: "get j ''steps'' = Some (JArr (s # ss))" by blast
  with assms have "steps_loop (s # ss) 0 (l1 @ [JStr ''Steps:'']) = Inr l2"
    by (simp add: steps_section_def)
  from steps_loop_blocks [OF this] st show ?thesis
    by (auto simp: steps_of_def)
next
  case False
  have e: "xs = []" if "get j ''steps'' = Some (JArr xs)" for xs
    using False that by (cases xs) auto
  have "steps_of j = []"
    using e by (auto simp: steps_of_def split: option.splits json.splits)
  moreover from False assms have "l2 = l1"
    by (auto simp: steps_section_def split: option.splits json.splits list.splits)
  ultimately show ?thesis by simp
qed

lemma trace_section_block: "trace_section j = Inr tr \<Longrightarrow> trace_block j tr"
  by (auto simp: trace_section_def trace_block_def and_then_def split: if_splits sum.splits)

lemma js_toString_total:
  "convertible v \<Longrightarrow> \<exists>s. js_toString v = Inr s"
  "\<forall>x \<in> set xs. convertible x \<Longrightarrow> \<exists>ss. sequence (js_toString_elems xs) = Inr ss"
proof (induction v and xs rule: js_toString_js_toString_elems.induct)
  case (5 xs)
  then show ?case by auto
next
  case (8 x xs)
  then show ?case by (cases "x = JNull") auto
qed auto

lemma or_default_convertible:
  "convertible_opt ov \<Longrightarrow> convertible d \<Longrightarrow> convertible (or_default ov d)"
  by (auto simp: convertible_opt_def or_default_def split: option.splits)

lemma to_string_default:
  "convertible_opt ov \<Longrightarrow> convertible d \<Longrightarrow> \<exists>s. js_toString (or_default ov d) = Inr s"
  by (rule js_toString_total(1)) (rule or_default_convertible)

lemma step_lines_total:
  assumes "good_step s"
  shows "\<exists>b. step_lines i s = Inr b \<and> (\<forall>l \<in> set b. convertible l)"
proof -
  from assms have n: "s \<noteq> JNull" and c: "convertible_opt (get s ''name'')" "convertible_opt (get s ''status'')"
    "convertible_opt (details s ''message'')"
    by (simp_all add: good_step_def)
  obtain name where name: "js_toString (or_default (get s ''name'') (JStr ''<step>'')) = Inr name"
    using to_string_default [OF c(1), of "JStr ''<step>''"] by auto
  obtain status where status: "js_toString (or_default (get s ''status'') (JStr ''unknown'')) = Inr status"
    using to_string_default [OF c(2), of "JStr ''unknown''"] by auto
  obtain m where m: "js_toString (or_default (details s ''message'') JNull) = Inr m"
    using to_string_default [OF c(3), of JNull] by auto
  show ?thesis
    using n name status m by (simp add: step_lines_def get_prop_def and_then_def Let_def)
qed

lemma steps_loop_total:
  assumes "\<forall>s \<in> set ss. good_step s" and "\<forall>l \<in> set lines. convertible l"
  shows "\<exists>out. steps_loop ss i lines = Inr out \<and> (\<forall>l \<in> set out. convertible l)"
  using assms
proof (induction ss arbitrary: i lines)
  case Nil
  then show ?case by simp
next
  case (Cons s ss)
  from Cons.prems(1) have "good_step s" by simp
  from step_lines_total [OF this, of i] obtain b where b: "step_lines i s = Inr b"
    "\<forall>l \<in> set b. convertible l" by blast
  from Cons.prems b(2) have "\<forall>s \<in> set ss. good_step s" "\<forall>l \<in> set (lines @ b). convertible l"
    by auto
  from Cons.IH [OF this, of "i + 1"] b(1) show ?case
    by (simp add: and_then_def)
qed

lemma buildPrompt_total:
  assumes "good_record (json f)"
  shows "\<exists>p. buildPrompt f = Inr p"
proof -
  let ?j = "json f"
  from assms have c: "convertible_opt (get ?j ''name'')" "convertible_opt (get ?j ''fullName'')"
    "convertible_opt (details ?j ''message'')" "convertible_opt (details ?j ''trace'')"
    and steps: "\<forall>s \<in> set (steps_of ?j). good_step s"
    by (simp_all add: good_record_def)
  obtain name where name: "js_toString (or_default (get ?j ''name'') (JStr ''Unknown'')) = Inr name"
    using to_string_default [OF c(1), of "JStr ''Unknown''"] by auto
  obtain full where full: "js_toString (or_default (get ?j ''fullName'') JNull) = Inr full"
    using to_string_default [OF c(2), of JNull] by auto
  have msg: "convertible (or_default (details ?j ''message'') JNull)"
    using c(3) by (simp add: or_default_convertible)
  have "\<exists>fl. (if truthy_opt (get ?j ''fullName'')
               then and_then (js_toString (or_default (get ?j ''fullName'') JNull))
                      (\<lambda>full. Inr [JStr (''Full name: '' @ full)])
               else Inr []) = (Inr fl :: js_error + json list) \<and> (\<forall>l \<in> set fl. convertible l)"
    using full by (simp add: and_then_def)
  then obtain fl where fl: "(if truthy_opt (get ?j ''fullName'')
               then and_then (js_toString (or_default (get ?j ''fullName'') JNull))
                      (\<lambda>full. Inr [JStr (''Full name: '' @ full)])
               else Inr []) = (Inr fl :: js_error + json list)" "\<forall>l \<in> set fl. convertible l"
    by blast
  have "\<exists>l1. head_lines ?j = Inr l1 \<and> (\<forall>l \<in> set l1. convertible l)"
    unfolding head_lines_def name fl(1) using fl(2) msg
    by (auto simp: and_then_def preamble_def)
  then obtain l1 where l1: "head_lines ?j = Inr l1" "\<forall>l \<in> set l1. convertible l"
    by blast
  obtain l2 where l2: "steps_section ?j l1 = Inr l2" "\<forall>l \<in> set l2. convertible l"
  proof (cases "\<exists>s ss. get ?j ''steps'' = Some (JArr (s # ss))")
    case True
    then obtain s ss where st: "get ?j ''steps'' = Some (JArr (s # ss))" by blast
    then have "steps_of ?j = s # ss" by (simp add: steps_of_def)
    with steps have "\<forall>x \<in> set (s # ss). good_step x" by simp
    moreover have "\<forall>l \<in> set (l1 @ [JStr ''Steps:'']). convertible l" using l1(2) by simp
    ultimately obtain out where "steps_loop (s # ss) 0 (l1 @ [JStr ''Steps:'']) = Inr out"
      "\<forall>l \<in> set out. convertible l"
      using steps_loop_total by blast
    with st that show ?thesis by (simp add: steps_section_def)
  next
    case False
    then have "steps_section ?j l1 = Inr l1"
      by (auto simp: steps_section_def split: option.splits json.splits list.splits)
    with l1(2) that show ?thesis by blast
  qed
  obtain t where t: "js_toString (or_default (details ?j ''trace'') JNull) = Inr t"
    using to_string_default [OF c(4), of JNull] by auto
  have "\<exists>l3. trace_section ?j = Inr l3 \<and> (\<forall>l \<in> set l3. convertible l)"
    using t by (simp add: trace_section_def and_then_def)
  then obtain l3 where l3: "trace_section ?j = Inr l3" "\<forall>l \<in> set l3. convertible l"
    by blast
  let ?ls = "l2 @ l3 @ [JStr ''---'', JStr ''Provide the JSON only.'']"
  have "prompt_lines ?j = Inr ?ls"
    using l1(1) l2(1) l3(1) by (simp add: prompt_lines_def and_then_def)
  moreover have "\<forall>l \<in> set ?ls. convertible l"
    using l2(2) l3(2) by auto
  then obtain ss where "sequence (js_toString_elems ?ls) = Inr ss"
    using js_toString_total(2) by blast
  ultimately show ?thesis
    by (simp add: buildPrompt_def and_then_def array_join_def)
qed

lemma digit_char_values:
  "digit_char 0 = CHR ''0''" "digit_char 1 = CHR ''1''" "digit_char 2 = CHR ''2''"
  "digit_char 3 = CHR ''3''" "digit_char 4 = CHR ''4''" "digit_char 5 = CHR ''5''"
  "digit_char 6 = CHR ''6''" "digit_char 7 = CHR ''7''" "digit_char 8 = CHR ''8''"
  "digit_char 9 = CHR ''9''" "digit_char (Suc 0) = CHR ''1''" "digit_char (Suc (Suc 0)) = CHR ''2''"
  by code_simp+

lemma scenario_builds: "buildPrompt scenario = Inr scenario_prompt"
  by (simp add: buildPrompt_def prompt_lines_def head_lines_def steps_section_def trace_section_def
      step_lines_def and_then_def get_prop_def or_default_def details_def truthy_opt_def
      scenario_def scenario_prompt_def preamble_def array_join_def show_nat.simps digit_char_values Let_def)

section \<open>A transport that fails\<close>



















section \<open>Digits\<close>









section \<open>Reading a number\<close>








section \<open>Printing and reading a number\<close>












section \<open>Printing and reading a string\<close>



lemma char_of_div_mod: "char_of (16 * ((of_char c :: nat) div 16) + of_char c mod 16) = c"
  by simp




section \<open>The order of the properties\<close>

















section \<open>Reading what JSON.stringify wrote\<close>



















section \<open>What JSON.parse returns\<close>














section \<open>The properties of the pipeline\<close>

subsection \<open>The name of the analysis file\<close>

text \<open>
  C1, on the record of \<^verbatim>\<open>fake-failure.js\<close>. The script takes \<^verbatim>\<open>uuid\<close> from the base name of
  the record's file and never reads the identifier in the record: the analysis of the
  record \<^verbatim>\<open>fake-failed-1\<close> is written to \<^verbatim>\<open>fake-failed-1-result.json-llm-analysis.txt\<close>, while
  the sanitized identifier with the suffix is \<^verbatim>\<open>fake-failed-1-llm-analysis.txt\<close>, a file
  that the run does not produce.
\<close>

theorem fixture_analysis_file_name:
  "findFailedResults fixture_dir = Inr [fixture_failure]
   \<and> get (json fixture_failure) ''uuid'' = Some (JStr ''fake-failed-1'')
   \<and> sanitize ''fake-failed-1'' @ ''-llm-analysis.txt'' = ''fake-failed-1-llm-analysis.txt''
   \<and> analysisFileName fixture_failure = ''fake-failed-1-result.json-llm-analysis.txt''
   \<and> entries (snd (run failing_world no_opts no_env fixture_dir))
       = [''fake-failed-1-result.json'', ''fake-failed-1-result.json-llm-analysis.txt'']"
proof -
  have a: "findFailedResults fixture_dir = Inr [fixture_failure]"
    unfolding fixture_failure_def by code_simp
  have b: "get (json fixture_failure) ''uuid'' = Some (JStr ''fake-failed-1'')"
    by (simp add: fixture_failure_def)
  have c: "sanitize ''fake-failed-1'' @ ''-llm-analysis.txt'' = ''fake-failed-1-llm-analysis.txt''"
    by code_simp
  have d: "analysisFileName fixture_failure = ''fake-failed-1-result.json-llm-analysis.txt''"
    by code_simp
  have e: "entries (snd (run failing_world no_opts no_env fixture_dir))
             = [''fake-failed-1-result.json'', ''fake-failed-1-result.json-llm-analysis.txt'']"
    by code_simp
  from a b c d e show ?thesis by blast
qed

subsection \<open>Exit codes\<close>

text \<open>
  C2, as the code has it. A path that does not exist is not an error: \<^verbatim>\<open>findFailedResults\<close>
  returns the empty list for it, and the run exits with 0 and touches nothing. The exit
  code 2 is what the program gives exactly when \<^verbatim>\<open>analyzeFailures\<close> throws; for the
  directory itself that is the case of a path that exists and cannot be listed. Every
  run exits with 0 or with 2, and with 0 whenever nothing is thrown.
\<close>

theorem exit_codes:
  "run w os ev Missing = (0, Missing)
   \<and> run w os ev NotDirectory = (2, NotDirectory)
   \<and> (fst (run w os ev d) = 0 \<or> fst (run w os ev d) = 2)
   \<and> (fst (run w os ev d) = 2) = (\<exists>err. fst (analyzeFailures w os ev d) = Inl err)"
proof -
  have a: "run w os ev Missing = (0, Missing)"
    by (simp add: run_def analyzeFailures_def findFailedResults_def existsSync_def)
  have b: "run w os ev NotDirectory = (2, NotDirectory)"
    by (simp add: run_def analyzeFailures_def findFailedResults_def existsSync_def readdirSync_def)
  obtain r d' where r: "analyzeFailures w os ev d = (r, d')"
    by (cases "analyzeFailures w os ev d")
  have c: "(fst (run w os ev d) = 0 \<or> fst (run w os ev d) = 2)
           \<and> (fst (run w os ev d) = 2) = (\<exists>err. fst (analyzeFailures w os ev d) = Inl err)"
  proof (cases r)
    case (Inl err)
    with r show ?thesis by (simp add: run_def)
  next
    case (Inr c)
    with r analyzeFailures_code [of w os ev d c] show ?thesis by (simp add: run_def)
  qed
  from a b c show ?thesis by blast
qed

theorem exit_codes_witness:
  "run failing_world no_opts no_env Missing = (0, Missing)
   \<and> run failing_world no_opts no_env NotDirectory = (2, NotDirectory)
   \<and> fst (run failing_world no_opts no_env (Directory passed_files)) = 0"
proof -
  have "fst (run failing_world no_opts no_env (Directory passed_files)) = 0"
    by code_simp
  then show ?thesis
    using exit_codes [of failing_world no_opts no_env "Directory passed_files"] by simp
qed

text \<open>
  The claim as the specification states it fails: for a results directory that does not
  exist the exit code is 0, not 2.
\<close>

theorem missing_directory_exits_0:
  "\<not> existsSync Missing \<and> fst (run failing_world no_opts no_env Missing) = 0
   \<and> fst (run failing_world no_opts no_env Missing) \<noteq> 2"
  by (simp add: run_def analyzeFailures_def findFailedResults_def existsSync_def)

subsection \<open>Normalizing twice\<close>




subsection \<open>Attaching twice\<close>

text \<open>
  C4. Attaching twice is attaching once. When the attach step has succeeded on a
  record, a second attach with the same file name changes nothing and asks for no write.
  The attachments afterwards are the earlier ones, in their order and untouched,
  followed by the analysis attachment if none of them referred to the analysis file; so
  a record that had no such attachment has exactly one, and the attachments of other
  stages are all still there.
\<close>

theorem attach_idempotent:
  assumes "attach_json name (JObj kvs) = Inr (j1, w1)"
    and "or_default (get (JObj kvs) ''attachments'') (JArr []) = JArr xs"
  shows "attach_json name j1 = Inr (j1, False)
         \<and> (\<exists>ys. get j1 ''attachments'' = Some (JArr ys)
               \<and> ys = (if filter (refers name) xs = [] then xs @ [attachment name] else xs)
               \<and> (filter (refers name) xs = [] \<longrightarrow> filter (refers name) ys = [attachment name])
               \<and> filter (\<lambda>a. \<not> refers name a) ys = filter (\<lambda>a. \<not> refers name a) xs)"
  using attach_json_cases [OF assms]
proof (elim disjE conjE)
  assume f: "find_source name xs = Inr False"
    and j1: "j1 = JObj (obj_put ''attachments'' (JArr (xs @ [attachment name])) kvs)"
  have none: "filter (refers name) xs = []"
    using f by (rule find_source_False)
  have "find_source name (xs @ [attachment name]) = Inr True"
    by (simp only: find_source_append [OF f] find_source_attachment)
  then have "attach_json name j1 = Inr (j1, False)"
    unfolding j1 by (rule attach_json_again)
  moreover have "get j1 ''attachments'' = Some (JArr (xs @ [attachment name]))"
    by (simp add: j1 map_of_obj_put)
  ultimately show ?thesis
    using none by (simp add: refers_attachment)
next
  assume t: "find_source name xs = Inr True"
    and j1: "j1 = JObj (obj_put ''attachments'' (JArr xs) kvs)"
  have some: "filter (refers name) xs \<noteq> []"
    using t by (rule find_source_True)
  have "attach_json name j1 = Inr (j1, False)"
    unfolding j1 using t by (rule attach_json_again)
  moreover have "get j1 ''attachments'' = Some (JArr xs)"
    by (simp add: j1 map_of_obj_put)
  ultimately show ?thesis
    using some by simp
qed

theorem attach_idempotent_witness:
  "attach_json ''a.json-llm-analysis.txt'' (JObj record_with_screenshot) = Inr (JObj record_with_analysis, True)
   \<and> attach_json ''a.json-llm-analysis.txt'' (JObj record_with_analysis) = Inr (JObj record_with_analysis, False)
   \<and> filter (refers ''a.json-llm-analysis.txt'') [screenshot, attachment ''a.json-llm-analysis.txt'']
       = [attachment ''a.json-llm-analysis.txt'']"
proof -
  have a: "attach_json ''a.json-llm-analysis.txt'' (JObj record_with_screenshot) = Inr (JObj record_with_analysis, True)"
    by code_simp
  have b: "or_default (get (JObj record_with_screenshot) ''attachments'') (JArr []) = JArr [screenshot]"
    by code_simp
  have c: "filter (refers ''a.json-llm-analysis.txt'') [screenshot, attachment ''a.json-llm-analysis.txt'']
             = [attachment ''a.json-llm-analysis.txt'']"
    by code_simp
  from attach_idempotent [OF a b] c show ?thesis
    using a by simp
qed

subsection \<open>The prompt\<close>

text \<open>
  C5. \<^verbatim>\<open>buildPrompt\<close> returns a prompt for every good record. Whenever it returns a
  prompt, the prompt is the lines joined by line breaks, and the lines are: the head (preamble, names, error message); then, if there are
  steps, the line \<^verbatim>\<open>Steps:\<close> and one block for every step, in the order of the steps, the
  block of the step at index \<open>k\<close> being the line \<^verbatim>\<open>k+1. name - status\<close>, followed by the line
  \<^verbatim>\<open>   Step error: message\<close> exactly when the status is failed and the step has a message;
  then, exactly when the record has a trace, the line \<^verbatim>\<open>Stack trace:\<close> and the first 3000
  characters of the trace; then the two closing lines.
\<close>

theorem prompt_steps_and_trace:
  "(good_record (json f) \<longrightarrow> (\<exists>p. buildPrompt f = Inr p))
   \<and> (\<forall>p. buildPrompt f = Inr p \<longrightarrow>
        (\<exists>head blocks tr ls.
           head_lines (json f) = Inr head
         \<and> ls = head @ (if steps_of (json f) = [] then [] else [JStr ''Steps:'']) @ concat blocks
                 @ tr @ [JStr ''---'', JStr ''Provide the JSON only.'']
         \<and> array_join [CHR 0x0A] ls = Inr p
         \<and> length blocks = length (steps_of (json f))
         \<and> (\<forall>k < length (steps_of (json f)). step_block k (steps_of (json f) ! k) (blocks ! k))
         \<and> trace_block (json f) tr))"
proof (intro conjI allI impI)
  assume "good_record (json f)"
  then show "\<exists>p. buildPrompt f = Inr p"
    by (rule buildPrompt_total)
next
  fix p
  assume built: "buildPrompt f = Inr p"
  then obtain ls where ls: "prompt_lines (json f) = Inr ls"
    and p: "array_join [CHR 0x0A] ls = Inr p"
    by (auto simp: buildPrompt_def and_then_def split: sum.splits)
  from ls obtain l1 l2 l3 where l1: "head_lines (json f) = Inr l1"
    and l2: "steps_section (json f) l1 = Inr l2"
    and l3: "trace_section (json f) = Inr l3"
    and eq: "ls = l2 @ l3 @ [JStr ''---'', JStr ''Provide the JSON only.'']"
    by (auto simp: prompt_lines_def and_then_def split: sum.splits)
  from steps_section_blocks [OF l2] obtain blocks
    where b: "l2 = l1 @ (if steps_of (json f) = [] then [] else [JStr ''Steps:'']) @ concat blocks"
      "length blocks = length (steps_of (json f))"
      "\<forall>k < length (steps_of (json f)). step_block k (steps_of (json f) ! k) (blocks ! k)"
    by blast
  from trace_section_block [OF l3] have t: "trace_block (json f) l3" .
  from l1 p eq b t
  show "\<exists>head blocks tr ls.
           head_lines (json f) = Inr head
         \<and> ls = head @ (if steps_of (json f) = [] then [] else [JStr ''Steps:'']) @ concat blocks
                 @ tr @ [JStr ''---'', JStr ''Provide the JSON only.'']
         \<and> array_join [CHR 0x0A] ls = Inr p
         \<and> length blocks = length (steps_of (json f))
         \<and> (\<forall>k < length (steps_of (json f)). step_block k (steps_of (json f) ! k) (blocks ! k))
         \<and> trace_block (json f) tr"
    by (intro exI [of _ l1] exI [of _ blocks] exI [of _ l3] exI [of _ ls]) simp
qed

theorem prompt_steps_and_trace_witness:
  "good_record (json scenario) \<and> buildPrompt scenario = Inr scenario_prompt
   \<and> (\<exists>head blocks tr ls.
         head_lines (json scenario) = Inr head
       \<and> ls = head @ (if steps_of (json scenario) = [] then [] else [JStr ''Steps:'']) @ concat blocks
               @ tr @ [JStr ''---'', JStr ''Provide the JSON only.'']
       \<and> array_join [CHR 0x0A] ls = Inr scenario_prompt
       \<and> length blocks = length (steps_of (json scenario))
       \<and> (\<forall>k < length (steps_of (json scenario)). step_block k (steps_of (json scenario) ! k) (blocks ! k))
       \<and> trace_block (json scenario) tr)"
proof -
  have g: "good_record (json scenario)"
    by (simp add: good_record_def good_step_def convertible_opt_def steps_of_def details_def scenario_def)
  from prompt_steps_and_trace [of scenario] scenario_builds g show ?thesis
    by blast
qed

subsection \<open>A failing transport\<close>



subsection \<open>A directory without failures\<close>



subsection \<open>Writing the record back\<close>



subsection \<open>Discovery reads only the files named .json\<close>

text \<open>
  C9. Discovery looks only at the files whose name ends in \<^verbatim>\<open>.json\<close>: whatever the
  directory holds, every record that \<^verbatim>\<open>findFailedResults\<close> returns comes from such a file,
  so a record stored under another name is not returned, and the loop, which runs over
  the returned records only, never analyzes it.
\<close>

theorem discovery_only_json:
  assumes "findFailedResults d = Inr fs" and "f \<in> set fs"
  shows "endsWith (file_name f) ''.json''"
  using findFailedResults_names [OF assms] by blast

theorem discovery_only_json_witness:
  "findFailedResults two_files
     = Inr [\<lparr>file_name = ''a.json'', json = JObj [(''name'', JStr ''t''), (''status'', JStr ''failed'')]\<rparr>]
   \<and> endsWith ''a.json'' ''.json'' \<and> \<not> endsWith ''b.txt'' ''.json''"
proof -
  let ?f = "\<lparr>file_name = ''a.json'', json = JObj [(''name'', JStr ''t''), (''status'', JStr ''failed'')]\<rparr>"
  have h: "findFailedResults two_files = Inr [?f]"
    by code_simp
  have "endsWith (file_name ?f) ''.json''"
    using discovery_only_json [OF h, of ?f] by simp
  moreover have "\<not> endsWith ''b.txt'' ''.json''"
    by code_simp
  ultimately show ?thesis using h by simp
qed

subsection \<open>Records without attachments\<close>

text \<open>
  C10. A record without an \<^verbatim>\<open>attachments\<close> property is not a failure of the attach step:
  the property is created as the empty array before the search, the search finds
  nothing, and the record gets exactly one entry, the analysis attachment, at the end of
  its properties. More generally, whether the property is absent (or falsy) or an array
  in which the search finds no entry for the analysis file, the step succeeds and
  appends exactly one entry.
\<close>

theorem attach_without_attachments:
  assumes "or_default (get (JObj kvs) ''attachments'') (JArr []) = JArr xs"
    and "find_source name xs = Inr False"
  shows "(\<exists>j'. attach_json name (JObj kvs) = Inr (j', True)
            \<and> get j' ''attachments'' = Some (JArr (xs @ [attachment name])))
         \<and> (get (JObj kvs) ''attachments'' = None \<longrightarrow>
              xs = [] \<and> attach_json name (JObj kvs)
                = Inr (JObj (kvs @ [(''attachments'', JArr [attachment name])]), True))"
proof -
  have a: "attach_json name (JObj kvs)
             = Inr (JObj (obj_put ''attachments'' (JArr (xs @ [attachment name])) kvs), True)"
    using assms by (simp add: attach_json_obj and_then_def)
  have b: "get (JObj (obj_put ''attachments'' (JArr (xs @ [attachment name])) kvs)) ''attachments''
             = Some (JArr (xs @ [attachment name]))"
    by (simp add: map_of_obj_put)
  have c: "xs = [] \<and> attach_json name (JObj kvs)
             = Inr (JObj (kvs @ [(''attachments'', JArr [attachment name])]), True)"
    if "get (JObj kvs) ''attachments'' = None"
  proof -
    from that assms(1) have "xs = []" by (simp add: or_default_def)
    with a that show ?thesis by (simp add: obj_put_attachments)
  qed
  from a b c show ?thesis by blast
qed

theorem attach_without_attachments_witness:
  "get (JObj bare_record) ''attachments'' = None
   \<and> attach_json ''a.json-llm-analysis.txt'' (JObj bare_record)
       = Inr (JObj [(''name'', JStr ''t''), (''status'', JStr ''failed''),
                    (''attachments'', JArr [attachment ''a.json-llm-analysis.txt''])], True)"
proof -
  have n: "get (JObj bare_record) ''attachments'' = None"
    by (simp add: bare_record_def)
  have d: "or_default (get (JObj bare_record) ''attachments'') (JArr []) = JArr []"
    using n by (simp add: or_default_def)
  have f: "find_source ''a.json-llm-analysis.txt'' [] = Inr False"
    by simp
  from attach_without_attachments [OF d f] n
  have "attach_json ''a.json-llm-analysis.txt'' (JObj bare_record)
          = Inr (JObj (bare_record @ [(''attachments'', JArr [attachment ''a.json-llm-analysis.txt''])]), True)"
    by blast
  with n show ?thesis by (simp add: bare_record_def)
qed

end
